theory Spec2Isabelle
  imports Complex_Main "HOL-Library.Word" "HOL-Library.AList"
begin

section \<open>JavaScript values, outbound messages and effects\<close>

text \<open>
  The device facade \<^verbatim>\<open>src/lib/appletv.ts\<close> builds plain JavaScript objects and hands them
  to \<^verbatim>\<open>sendMessage\<close>. An object is modelled as an association list from property names
  to values, in insertion order: assigning a property is \<open>AList.update\<close> (replace in place,
  or append), \<^verbatim>\<open>delete\<close> is \<open>AList.delete\<close>, and reading a missing property gives
  \<open>VUndefined\<close>.
\<close>

type_synonym byte = "8 word"

datatype jsvalue =
    VUndefined
  | VNull
  | VBool bool
  | VNum int
  | VStr string
  | VBuf "byte list"
  | VObj "(string \<times> jsvalue) list"

type_synonym jsobject = "(string \<times> jsvalue) list"

definition getProp :: "jsobject \<Rightarrow> string \<Rightarrow> jsvalue" where
  "getProp obj k = (case map_of obj k of None \<Rightarrow> VUndefined | Some v \<Rightarrow> v)"

text \<open>Member access \<^verbatim>\<open>v.k\<close> on a value that is neither null nor undefined.\<close>

fun member :: "jsvalue \<Rightarrow> string \<Rightarrow> jsvalue" where
  "member (VObj fs) k = getProp fs k"
| "member _ k = VUndefined"

text \<open>JavaScript truthiness, as tested by \<^verbatim>\<open>if (v)\<close>.\<close>

fun truthy :: "jsvalue \<Rightarrow> bool" where
  "truthy VUndefined = False"
| "truthy VNull = False"
| "truthy (VBool b) = b"
| "truthy (VNum n) = (n \<noteq> 0)"
| "truthy (VStr s) = (s \<noteq> [])"
| "truthy (VBuf bs) = True"
| "truthy (VObj fs) = True"

datatype error = Error string

text \<open>
  One call of \<^verbatim>\<open>sendMessage(definitionFilename, messageType, body, waitForResponse,
  priority = 0)\<close>, with the body as it is at the time of the call.
\<close>

record outmsg =
  definitionFilename :: string
  messageType :: string
  body :: jsobject
  waitForResponse :: bool
  priority :: int

text \<open>
  \<^verbatim>\<open>sendMessage\<close> loads a protobuf definition and passes the message to the connection;
  neither collaborator is part of the sources, so the outcome of the promise it returns
  is a parameter: from a connection state \<open>'c\<close> and the call, either the rejection
  (\<open>Inl\<close>) or the response the promise is fulfilled with (\<open>Inr\<close>), and the next
  connection state. The credentials of the device, which \<^verbatim>\<open>sendMessage\<close> passes along,
  are part of that state. What the facade does is recorded as a list of effects: the
  calls of \<^verbatim>\<open>sendMessage\<close> and the delays it awaits, in milliseconds.
\<close>

type_synonym ('c, 'r) sender = "'c \<Rightarrow> outmsg \<Rightarrow> (error + 'r) \<times> 'c"

datatype effect = SendMessage outmsg | Delay nat

definition sendMessage ::
  "('c, 'r) sender \<Rightarrow> 'c \<Rightarrow> string \<Rightarrow> string \<Rightarrow> jsobject \<Rightarrow> bool \<Rightarrow> int option
     \<Rightarrow> (error + 'r) \<times> effect list \<times> 'c" where
  "sendMessage conn c file ty b wait prio =
     (let m = \<lparr>definitionFilename = file, messageType = ty, body = b, waitForResponse = wait,
               priority = (case prio of None \<Rightarrow> 0 | Some p \<Rightarrow> p)\<rparr>;
          (r, c') = conn c m
      in (r, [SendMessage m], c'))"

section \<open>Key presses\<close>

text \<open>
  \<^verbatim>\<open>Buffer.from(s, 'hex')\<close>: two hexadecimal digits per byte, stopping at the first pair
  that is not hexadecimal; a trailing single character is dropped.
\<close>

definition hexDigit :: "char \<Rightarrow> nat option" where
  "hexDigit c =
     (let n = (of_char c :: nat) in
      if 48 \<le> n \<and> n \<le> 57 then Some (n - 48)
      else if 97 \<le> n \<and> n \<le> 102 then Some (n - 87)
      else if 65 \<le> n \<and> n \<le> 70 then Some (n - 55)
      else None)"

fun Buffer_from_hex :: "string \<Rightarrow> byte list" where
  "Buffer_from_hex (a # b # cs) =
     (case hexDigit a of
        None \<Rightarrow> []
      | Some x \<Rightarrow> (case hexDigit b of
           None \<Rightarrow> []
         | Some y \<Rightarrow> word_of_nat (16 * x + y) # Buffer_from_hex cs))"
| "Buffer_from_hex _ = []"

text \<open>
  The \<^verbatim>\<open>hidEventData\<close> buffer of \<^verbatim>\<open>sendKeyPress\<close>. The helper
  \<^verbatim>\<open>number.UInt16toBufferBE\<close> comes from \<^verbatim>\<open>./util/number\<close>, which is not among the
  sources, so it is the parameter \<open>UInt16toBufferBE\<close>.
\<close>

definition hidEventData :: "(nat \<Rightarrow> byte list) \<Rightarrow> nat \<Rightarrow> nat \<Rightarrow> bool \<Rightarrow> byte list" where
  "hidEventData UInt16toBufferBE usePage usage down =
     (let time = Buffer_from_hex ''438922cf08020000'';
          data = concat [UInt16toBufferBE usePage,
                         UInt16toBufferBE usage,
                         if down then UInt16toBufferBE 1 else UInt16toBufferBE 0]
      in concat [time,
                 Buffer_from_hex (''00000000000000000100000000000000020''
                                  @ ''00000200000000300000001000000000000''),
                 data,
                 Buffer_from_hex ''0000000000000001000000''])"

text \<open>
  \<^verbatim>\<open>sendKeyPress\<close> returns a promise for the device object (here \<open>()\<close>) that is
  fulfilled when the promise of \<^verbatim>\<open>sendMessage\<close> is.
\<close>

definition sendKeyPress ::
  "('c, 'r) sender \<Rightarrow> (nat \<Rightarrow> byte list) \<Rightarrow> 'c \<Rightarrow> nat \<Rightarrow> nat \<Rightarrow> bool
     \<Rightarrow> (error + unit) \<times> effect list \<times> 'c" where
  "sendKeyPress conn UInt16toBufferBE c usePage usage down =
     (let b = [(''hidEventData'', VBuf (hidEventData UInt16toBufferBE usePage usage down))];
          (r, t, c') = sendMessage conn c ''SendHIDEventMessage'' ''SendHIDEventMessage'' b False None
      in (case r of Inl e \<Rightarrow> (Inl e, t, c') | Inr _ \<Rightarrow> (Inr (), t, c')))"

text \<open>
  \<^verbatim>\<open>sendKeyPressAndRelease(usePage, usage, hold = false)\<close> is an async function: when the
  awaited press is rejected, it stops there and its own promise is rejected.
\<close>

definition sendKeyPressAndRelease ::
  "('c, 'r) sender \<Rightarrow> (nat \<Rightarrow> byte list) \<Rightarrow> 'c \<Rightarrow> nat \<Rightarrow> nat \<Rightarrow> bool option
     \<Rightarrow> (error + unit) \<times> effect list \<times> 'c" where
  "sendKeyPressAndRelease conn UInt16toBufferBE c usePage usage hold_opt =
     (let hold = (case hold_opt of None \<Rightarrow> False | Some h \<Rightarrow> h);
          (r1, t1, c1) = sendKeyPress conn UInt16toBufferBE c usePage usage True
      in (case r1 of
            Inl e \<Rightarrow> (Inl e, t1, c1)
          | Inr _ \<Rightarrow>
              (let t2 = (if hold then [Delay 1000] else []);
                   (r3, t3, c3) = sendKeyPress conn UInt16toBufferBE c1 usePage usage False
               in (r3, t1 @ t2 @ t3, c3))))"

datatype Key =
    Up | Down | Left | Right | Menu | Play | Pause | Next | Previous | Suspend | Select
  | Topmenu | WakeUp | VolumeUp | VolumeDown | Home | HomeHold

text \<open>
  What a call returns: \<^verbatim>\<open>undefined\<close>, or a promise together with its outcome. A
  synchronous exception would be \<open>Inl\<close> of the enclosing sum.
\<close>

datatype 'a returned = Undefined | Promise "error + 'a"

text \<open>
  A case of the \<^verbatim>\<open>switch\<close> in \<^verbatim>\<open>sendKeyCommand\<close>,
  \<^verbatim>\<open>return this.sendKeyPressAndRelease(usePage, usage)\<close>: the call returns the promise
  of the async function.
\<close>

definition pressAndRelease ::
  "('c, 'r) sender \<Rightarrow> (nat \<Rightarrow> byte list) \<Rightarrow> 'c \<Rightarrow> nat \<Rightarrow> nat \<Rightarrow> bool option
     \<Rightarrow> (error + unit returned) \<times> effect list \<times> 'c" where
  "pressAndRelease conn enc c usePage usage hold_opt =
     (let (r, t, c') = sendKeyPressAndRelease conn enc c usePage usage hold_opt
      in (Inr (Promise r), t, c'))"

text \<open>
  \<^verbatim>\<open>sendKeyCommand(key)\<close>. The argument is \<open>Some k\<close> for a member of the enum and
  \<open>None\<close> for a value that matches no \<^verbatim>\<open>case\<close> of the \<^verbatim>\<open>switch\<close>, such as the
  \<^verbatim>\<open>undefined\<close> that \<^verbatim>\<open>AppleTV.key\<close> returns; the \<^verbatim>\<open>switch\<close> has no default branch,
  so the function then ends without a \<^verbatim>\<open>return\<close>.
\<close>

fun sendKeyCommand ::
  "('c, 'r) sender \<Rightarrow> (nat \<Rightarrow> byte list) \<Rightarrow> 'c \<Rightarrow> Key option
     \<Rightarrow> (error + unit returned) \<times> effect list \<times> 'c" where
  "sendKeyCommand conn enc c (Some Up) = pressAndRelease conn enc c 1 0x8C None"
| "sendKeyCommand conn enc c (Some Down) = pressAndRelease conn enc c 1 0x8D None"
| "sendKeyCommand conn enc c (Some Left) = pressAndRelease conn enc c 1 0x8B None"
| "sendKeyCommand conn enc c (Some Right) = pressAndRelease conn enc c 1 0x8A None"
| "sendKeyCommand conn enc c (Some Menu) = pressAndRelease conn enc c 1 0x86 None"
| "sendKeyCommand conn enc c (Some Play) = pressAndRelease conn enc c 12 0xB0 None"
| "sendKeyCommand conn enc c (Some Pause) = pressAndRelease conn enc c 12 0xB1 None"
| "sendKeyCommand conn enc c (Some Next) = pressAndRelease conn enc c 12 0xB5 None"
| "sendKeyCommand conn enc c (Some Previous) = pressAndRelease conn enc c 12 0xB6 None"
| "sendKeyCommand conn enc c (Some Suspend) = pressAndRelease conn enc c 1 0x82 None"
| "sendKeyCommand conn enc c (Some Select) = pressAndRelease conn enc c 1 0x89 None"
| "sendKeyCommand conn enc c (Some Topmenu) = pressAndRelease conn enc c 12 0x60 None"
| "sendKeyCommand conn enc c (Some WakeUp) = pressAndRelease conn enc c 1 0x83 None"
| "sendKeyCommand conn enc c (Some VolumeUp) = pressAndRelease conn enc c 12 0xE9 None"
| "sendKeyCommand conn enc c (Some VolumeDown) = pressAndRelease conn enc c 12 0xEA None"
| "sendKeyCommand conn enc c (Some Home) = pressAndRelease conn enc c 12 0x40 None"
| "sendKeyCommand conn enc c (Some HomeHold) = pressAndRelease conn enc c 12 0x40 (Some True)"
| "sendKeyCommand conn enc c None = (Inr Undefined, [], c)"

text \<open>
  \<^verbatim>\<open>AppleTV.key(name)\<close>: a \<^verbatim>\<open>switch\<close> over string literals without a default branch.
  \<open>Inr None\<close> is the return of \<^verbatim>\<open>undefined\<close>; the function has no \<^verbatim>\<open>throw\<close>.
\<close>

definition key :: "string \<Rightarrow> error + Key option" where
  "key name =
     (if name = ''up'' then Inr (Some Up)
      else if name = ''down'' then Inr (Some Down)
      else if name = ''left'' then Inr (Some Left)
      else if name = ''right'' then Inr (Some Right)
      else if name = ''menu'' then Inr (Some Menu)
      else if name = ''play'' then Inr (Some Play)
      else if name = ''pause'' then Inr (Some Pause)
      else if name = ''previous'' then Inr (Some Previous)
      else if name = ''suspend'' then Inr (Some Suspend)
      else if name = ''select'' then Inr (Some Select)
      else if name = ''topmenu'' then Inr (Some Topmenu)
      else if name = ''wakeup'' then Inr (Some WakeUp)
      else if name = ''volumeup'' then Inr (Some VolumeUp)
      else if name = ''volumedown'' then Inr (Some VolumeDown)
      else if name = ''home'' then Inr (Some Home)
      else if name = ''homehold'' then Inr (Some HomeHold)
      else Inr None)"

text \<open>
  Modelled from the spec: the helper \<^verbatim>\<open>number.UInt16toBufferBE\<close> lives in
  \<^verbatim>\<open>./util/number\<close>, which is not among the sources. The spec describes the three
  fields of a key press as little-endian \<^verbatim>\<open>uint16\<close>s: two bytes, low byte first. (The
  name of the helper suggests the opposite byte order; the theorems on the buffer hold
  for every encoder that yields two bytes, and this one serves as a concrete instance.)
\<close>

definition uint16LE :: "nat \<Rightarrow> byte list" where
  "uint16LE n = [word_of_nat (n mod 256), word_of_nat (n div 256 mod 256)]"

text \<open>
  The other reading of the helper, by its name: a \<^verbatim>\<open>uint16\<close> in two bytes, high byte
  first.
\<close>

definition uint16BE :: "nat \<Rightarrow> byte list" where
  "uint16BE n = [word_of_nat (n div 256 mod 256), word_of_nat (n mod 256)]"

text \<open>A connection on which every promise of \<^verbatim>\<open>sendMessage\<close> is fulfilled.\<close>

definition fulfilling :: "(unit, unit) sender" where
  "fulfilling c m = (Inr (), c)"

text \<open>
  A connection on which every promise of \<^verbatim>\<open>sendMessage\<close> is rejected, as when the
  protobuf definition cannot be loaded or the connection refuses the message.
\<close>

definition rejecting :: "(unit, unit) sender" where
  "rejecting c m = (Inl (Error ''rejected''), c)"

text \<open>The names that \<^verbatim>\<open>AppleTV.key\<close> has a \<^verbatim>\<open>case\<close> for.\<close>

definition keyNames :: "string list" where
  "keyNames = [''up'', ''down'', ''left'', ''right'', ''menu'', ''play'', ''pause'', ''previous'',
               ''suspend'', ''select'', ''topmenu'', ''wakeup'', ''volumeup'', ''volumedown'',
               ''home'', ''homehold'']"

section \<open>Introduction\<close>

text \<open>\<^verbatim>\<open>sendIntroduction\<close> of \<^verbatim>\<open>src/lib/appletv.ts\<close>; \<open>pairingId\<close> is \<^verbatim>\<open>this.pairingId\<close>.\<close>

definition introductionBody :: "string \<Rightarrow> jsobject" where
  "introductionBody pairingId =
     [(''uniqueIdentifier'', VStr pairingId),
      (''name'', VStr ''appletv-node''),
      (''localizedModelName'', VStr ''iPhone''),
      (''systemBuildVersion'', VStr ''17B111''),
      (''applicationBundleIdentifier'', VStr ''com.apple.TVRemote''),
      (''applicationBundleVersion'', VStr ''344.28''),
      (''protocolVersion'', VNum 1),
      (''allowsPairing'', VBool True),
      (''lastSupportedMessageType'', VNum 77),
      (''supportsSystemPairing'', VBool True),
      (''supportsSharedQueue'', VBool True),
      (''supportsACL'', VBool True),
      (''supportsExtendedMotion'', VBool True),
      (''sharedQueueVersion'', VNum 2),
      (''deviceClass'', VNum 1),
      (''logicalDeviceCount'', VNum 1)]"

definition sendIntroduction ::
  "('c, 'r) sender \<Rightarrow> 'c \<Rightarrow> string \<Rightarrow> (error + 'r) \<times> effect list \<times> 'c" where
  "sendIntroduction conn c pairingId =
     sendMessage conn c ''DeviceInfoMessage'' ''DeviceInfoMessage'' (introductionBody pairingId)
       True None"

text \<open>The same function in the compiled copy \<^verbatim>\<open>dist/lib/appletv.js\<close>.\<close>

definition dist_introductionBody :: "string \<Rightarrow> jsobject" where
  "dist_introductionBody pairingId =
     [(''uniqueIdentifier'', VStr pairingId),
      (''name'', VStr ''appletv-node''),
      (''localizedModelName'', VStr ''iPhone''),
      (''systemBuildVersion'', VStr ''17B111''),
      (''applicationBundleIdentifier'', VStr ''com.apple.TVRemote''),
      (''applicationBundleVersion'', VStr ''344.28''),
      (''protocolVersion'', VNum 1),
      (''allowsPairing'', VBool True),
      (''lastSupportedMessageType'', VNum 77),
      (''supportsSystemPairing'', VBool True),
      (''logicalDeviceCount'', VNum 1)]"

definition dist_sendIntroduction ::
  "('c, 'r) sender \<Rightarrow> 'c \<Rightarrow> string \<Rightarrow> (error + 'r) \<times> effect list \<times> 'c" where
  "dist_sendIntroduction conn c pairingId =
     sendMessage conn c ''DeviceInfoMessage'' ''DeviceInfoMessage''
       (dist_introductionBody pairingId) True None"

section \<open>Construction from a service record\<close>

text \<open>
  The fields of the \<^verbatim>\<open>mdns\<close> service that the constructor reads, and the fields it
  sets. \<^verbatim>\<open>xs[i]\<close> beyond the end of an array is \<^verbatim>\<open>undefined\<close>, here \<open>None\<close>.
\<close>

record TxtRecord =
  Name :: string
  UniqueIdentifier :: string

record Service =
  addresses :: "string list"
  servicePort :: nat
  txtRecord :: TxtRecord

record AppleTV =
  name :: string
  address :: "string option"
  port :: nat
  uid :: string
  pairingId :: string

definition index :: "'a list \<Rightarrow> nat \<Rightarrow> 'a option" where
  "index xs i = (if i < length xs then Some (xs ! i) else None)"

text \<open>The field initialiser \<^verbatim>\<open>pairingId = uuid()\<close> draws \<open>uuid\<close>.\<close>

definition constructor :: "Service \<Rightarrow> string \<Rightarrow> AppleTV" where
  "constructor service uuid =
     \<lparr>name = Name (txtRecord service),
      address = (if length (addresses service) > 1 then index (addresses service) 1
                 else index (addresses service) 0),
      port = servicePort service,
      uid = UniqueIdentifier (txtRecord service),
      pairingId = uuid\<rparr>"

section \<open>Playback queue requests\<close>

text \<open>
  \<^verbatim>\<open>requestPlaybackQueueWithWait(options, waitForResponse)\<close> binds \<^verbatim>\<open>params\<close> to the very
  object \<^verbatim>\<open>options\<close>, so every assignment to \<^verbatim>\<open>params\<close> changes the caller's object.
  The model threads that one object: \<open>playbackQueueParams options uuid\<close> is its state
  after the assignments, where \<open>uuid\<close> is what \<^verbatim>\<open>uuid()\<close> returned, and the function
  returns it beside the outcome of \<^verbatim>\<open>sendMessage\<close>.
\<close>

definition playbackQueueParams :: "jsobject \<Rightarrow> string \<Rightarrow> jsobject" where
  "playbackQueueParams options uuid =
     (let params = AList.update ''requestID'' (VStr uuid) options
      in if truthy (getProp params ''artworkSize'')
         then (let params = AList.update ''artworkWidth''
                              (member (getProp params ''artworkSize'') ''width'') params;
                   params = AList.update ''artworkHeight''
                              (member (getProp params ''artworkSize'') ''height'') params
               in AList.delete ''artworkSize'' params)
         else params)"

definition requestPlaybackQueueWithWait ::
  "('c, 'r) sender \<Rightarrow> 'c \<Rightarrow> jsobject \<Rightarrow> bool \<Rightarrow> string
     \<Rightarrow> jsobject \<times> (error + 'r) \<times> effect list \<times> 'c" where
  "requestPlaybackQueueWithWait conn c options wait uuid =
     (let params = playbackQueueParams options uuid
      in (params, sendMessage conn c ''PlaybackQueueRequestMessage''
                    ''PlaybackQueueRequestMessage'' params wait None))"

definition requestPlaybackQueue ::
  "('c, 'r) sender \<Rightarrow> 'c \<Rightarrow> jsobject \<Rightarrow> string \<Rightarrow> jsobject \<times> (error + 'r) \<times> effect list \<times> 'c" where
  "requestPlaybackQueue conn c options uuid = requestPlaybackQueueWithWait conn c options True uuid"

section \<open>Inbound messages\<close>

text \<open>
  A decoded message as the handlers read it: the numeric \<^verbatim>\<open>type\<close> and the payload,
  \<open>None\<close> when it is \<^verbatim>\<open>null\<close> or \<^verbatim>\<open>undefined\<close>. Of the payload of a
  \<^verbatim>\<open>SetStateMessage\<close> the handler reads three optional sub-messages; the middle one
  wraps an optional list (its field \<^verbatim>\<open>supportedCommands\<close>, here \<open>commands\<close>) whose
  entries have optional flags.
\<close>

record SupportedCommandMsg =
  command :: nat
  enabled :: "bool option"
  canScrub :: "bool option"

record SupportedCommandsMsg =
  commands :: "SupportedCommandMsg list option"

record ('i, 'q) SetStatePayload =
  nowPlayingInfo :: "'i option"
  supportedCommands :: "SupportedCommandsMsg option"
  playbackQueue :: "'q option"

record ('i, 'q) Message =
  type :: nat
  payload :: "('i, 'q) SetStatePayload option"

text \<open>\<^verbatim>\<open>new SupportedCommand(command, enabled, canScrub)\<close>.\<close>

datatype SupportedCommand = SupportedCommand nat bool bool

text \<open>What the device emits: the event and its argument.\<close>

datatype ('i, 'q, 'n) emitted =
    Emit_message "('i, 'q) Message"
  | Emit_nowPlaying "'n option"
  | Emit_supportedCommands "SupportedCommand list"
  | Emit_playbackQueue 'q

text \<open>\<^verbatim>\<open>x || false\<close> for an optional boolean.\<close>

definition orFalse :: "bool option \<Rightarrow> bool" where
  "orFalse x = (case x of None \<Rightarrow> False | Some b \<Rightarrow> b)"

text \<open>
  The listener that the constructor puts on the connection's \<^verbatim>\<open>message\<close> event. The
  enum member \<^verbatim>\<open>Message.Type.SetStateMessage\<close> and the class \<^verbatim>\<open>NowPlayingInfo\<close> are
  not among the sources, so both are parameters.
\<close>

definition onMessage ::
  "nat \<Rightarrow> (('i, 'q) SetStatePayload \<Rightarrow> 'n) \<Rightarrow> ('i, 'q) Message \<Rightarrow> ('i, 'q, 'n) emitted list" where
  "onMessage SetStateMessage NowPlayingInfo message =
     Emit_message message #
     (if type message = SetStateMessage then
        (case payload message of
           None \<Rightarrow> [Emit_nowPlaying None]
         | Some p \<Rightarrow>
             (case nowPlayingInfo p of
                None \<Rightarrow> []
              | Some _ \<Rightarrow> [Emit_nowPlaying (Some (NowPlayingInfo p))])
             @ (case supportedCommands p of
                  None \<Rightarrow> []
                | Some scs \<Rightarrow>
                    [Emit_supportedCommands
                       (map (\<lambda>sc. SupportedCommand (command sc) (orFalse (enabled sc))
                                    (orFalse (canScrub sc)))
                            (case commands scs of None \<Rightarrow> [] | Some l \<Rightarrow> l))])
             @ (case playbackQueue p of
                  None \<Rightarrow> []
                | Some q \<Rightarrow> [Emit_playbackQueue q]))
      else [])"

section \<open>Waiting for a message of a type\<close>

text \<open>Decimal rendering of a number, as \<^verbatim>\<open>'...' + type\<close> does for an enum value.\<close>

fun numberToString :: "nat \<Rightarrow> string" where
  "numberToString n =
     (if n < 10 then [char_of (48 + n)]
      else numberToString (n div 10) @ [char_of (48 + n mod 10)])"

declare numberToString.simps [simp del]

text \<open>
  A JavaScript number: a finite value (every finite double is a rational), \<^verbatim>\<open>NaN\<close>, or
  an infinity.
\<close>

datatype number = Number rat | NaN | Infinity | NegInfinity

text \<open>
  \<^verbatim>\<open>timeout * 1000\<close>. The product of a finite value is taken exactly: the rounding of
  the floating-point product is not modelled.
\<close>

definition times1000 :: "number \<Rightarrow> number" where
  "times1000 x = (case x of Number r \<Rightarrow> Number (r * 1000) | NaN \<Rightarrow> NaN
                  | Infinity \<Rightarrow> Infinity | NegInfinity \<Rightarrow> NegInfinity)"

text \<open>
  The delay in milliseconds that Node's \<^verbatim>\<open>setTimeout(callback, after)\<close> uses: a value
  that is not between 1 and 2147483647, \<^verbatim>\<open>NaN\<close> included, is replaced by 1, and the
  timer runs on whole milliseconds.
\<close>

definition setTimeoutDelay :: "number \<Rightarrow> nat" where
  "setTimeoutDelay after =
     (case after of
        Number x \<Rightarrow> if 1 \<le> x \<and> x \<le> 2147483647 then nat \<lfloor>x\<rfloor> else 1
      | NaN \<Rightarrow> 1
      | Infinity \<Rightarrow> 1
      | NegInfinity \<Rightarrow> 1)"

text \<open>
  \<^verbatim>\<open>messageOfType(type, timeout = 5)\<close> creates a promise, a timer set with
  \<^verbatim>\<open>setTimeout(..., timeout * 1000)\<close> and a listener on \<^verbatim>\<open>message\<close>. The record holds
  what exists afterwards: the state of the promise, whether the listener is still
  registered, and the milliseconds left until the timer's callback runs (\<open>None\<close> once
  it has run). A promise that is settled ignores later calls of \<^verbatim>\<open>resolve\<close> and
  \<^verbatim>\<open>reject\<close>.
\<close>

datatype 'm promise = Pending | Resolved 'm | Rejected error

record 'm waiter =
  wanted :: nat
  promiseState :: "'m promise"
  listening :: bool
  timer :: "nat option"

definition settle :: "'m promise \<Rightarrow> 'm promise \<Rightarrow> 'm promise" where
  "settle p outcome = (if p = Pending then outcome else p)"

definition messageOfType :: "nat \<Rightarrow> number option \<Rightarrow> ('i, 'q) Message waiter" where
  "messageOfType ty timeout_opt =
     (let timeout = (case timeout_opt of None \<Rightarrow> Number 5 | Some t \<Rightarrow> t)
      in \<lparr>wanted = ty, promiseState = Pending, listening = True,
          timer = Some (setTimeoutDelay (times1000 timeout))\<rparr>)"

text \<open>
  What can happen next: the device emits \<^verbatim>\<open>message\<close>, or time passes. The timer is never
  cleared, so its callback runs also after the promise was resolved.
\<close>

datatype 'm happening = Inbound 'm | Elapse nat

fun waiterStep :: "('i, 'q) Message waiter \<Rightarrow> ('i, 'q) Message happening \<Rightarrow> ('i, 'q) Message waiter" where
  "waiterStep w (Inbound message) =
     (if listening w \<and> type message = wanted w
      then w\<lparr>promiseState := settle (promiseState w) (Resolved message), listening := False\<rparr>
      else w)"
| "waiterStep w (Elapse ms) =
     (case timer w of
        None \<Rightarrow> w
      | Some left \<Rightarrow>
          if ms < left then w\<lparr>timer := Some (left - ms)\<rparr>
          else w\<lparr>promiseState :=
                    settle (promiseState w)
                      (Rejected (Error (''Timed out waiting for message type ''
                                        @ numberToString (wanted w)))),
                  listening := False,
                  timer := None\<rparr>)"

definition waiterRun :: "('i, 'q) Message waiter \<Rightarrow> ('i, 'q) Message happening list \<Rightarrow> ('i, 'q) Message waiter" where
  "waiterRun w hs = foldl waiterStep w hs"

text \<open>The time that passes in a list of happenings, and the messages it contains.\<close>

fun elapsed :: "'m happening list \<Rightarrow> nat" where
  "elapsed [] = 0"
| "elapsed (Elapse ms # hs) = ms + elapsed hs"
| "elapsed (Inbound m # hs) = elapsed hs"

fun inbound :: "'m happening list \<Rightarrow> 'm list" where
  "inbound [] = []"
| "inbound (Elapse ms # hs) = inbound hs"
| "inbound (Inbound m # hs) = m # inbound hs"

section \<open>Listeners and the polling timer\<close>

text \<open>
  The device is a Node \<^verbatim>\<open>EventEmitter\<close>, and the \<^verbatim>\<open>newListener\<close> and
  \<^verbatim>\<open>removeListener\<close> hooks that its constructor registers with \<^verbatim>\<open>_on\<close> are ordinary
  listeners of it. A listener is one of the two hooks or a function of a caller, named
  by a number; a caller's function is taken not to call back into the device.
\<close>

datatype listener = NewListenerHook | RemoveListenerHook | Listener nat

text \<open>
  The part of the device that the hooks work on: the emitter's table of events (each
  event with its listeners in order, the events in the order they were first used), the
  closure variable \<^verbatim>\<open>queuePollTimer\<close>, the intervals that are active in the runtime
  (handle and period in milliseconds), the next fresh handle, the connection with its
  flag \<^verbatim>\<open>isOpen\<close>, and the effects so far.
\<close>

record 'c device =
  events :: "(string \<times> listener list) list"
  queuePollTimer :: "nat option"
  intervals :: "(nat \<times> nat) list"
  nextHandle :: nat
  connection :: 'c
  isOpen :: bool
  effects :: "effect list"

definition listeners :: "'c device \<Rightarrow> string \<Rightarrow> listener list" where
  "listeners d event = (case map_of (events d) event of None \<Rightarrow> [] | Some ls \<Rightarrow> ls)"

definition listenerCount :: "'c device \<Rightarrow> string \<Rightarrow> nat" where
  "listenerCount d event = length (listeners d event)"


definition clearInterval :: "'c device \<Rightarrow> nat \<Rightarrow> 'c device" where
  "clearInterval d h = d\<lparr>intervals := filter (\<lambda>(h', ms). h' \<noteq> h) (intervals d)\<rparr>"


text \<open>The hook on \<^verbatim>\<open>removeListener\<close>.\<close>

definition onRemoveListener :: "'c device \<Rightarrow> string \<Rightarrow> 'c device" where
  "onRemoveListener d event =
     (case queuePollTimer d of
        None \<Rightarrow> d
      | Some h \<Rightarrow>
          if event = ''nowPlaying'' \<or> event = ''supportedCommands'' then
            (let count = listenerCount d ''nowPlaying'' + listenerCount d ''supportedCommands''
             in if count = 0 then (clearInterval d h)\<lparr>queuePollTimer := None\<rparr> else d)
          else d)"


definition emitRemoveListener :: "'c device \<Rightarrow> string \<Rightarrow> 'c device" where
  "emitRemoveListener d event =
     foldl (\<lambda>d l. if l = RemoveListenerHook then onRemoveListener d event else d) d
       (listeners d ''removeListener'')"




text \<open>
  \<^verbatim>\<open>removeListener\<close> (and \<^verbatim>\<open>off\<close>) does nothing when the listener is not registered
  for the event; otherwise it removes the most recently added instance, drops the event
  from the table when that was its last listener, and then emits \<^verbatim>\<open>removeListener\<close>.
\<close>

definition removeLast :: "'a \<Rightarrow> 'a list \<Rightarrow> 'a list" where
  "removeLast l ls = rev (remove1 l (rev ls))"

definition removeListener :: "'c device \<Rightarrow> string \<Rightarrow> listener \<Rightarrow> 'c device" where
  "removeListener d event l =
     (if l \<in> set (listeners d event) then
        (let list = removeLast l (listeners d event);
             d' = d\<lparr>events := (if list = [] then AList.delete event (events d)
                                else AList.update event list (events d))\<rparr>
         in emitRemoveListener d' event)
      else d)"

text \<open>
  \<^verbatim>\<open>removeAllListeners(event)\<close>: when nothing listens for \<^verbatim>\<open>removeListener\<close>, the event
  is dropped from the table; otherwise its listeners are removed one by one with
  \<^verbatim>\<open>removeListener\<close>, the last added first.
\<close>

definition removeAllOf :: "'c device \<Rightarrow> string \<Rightarrow> 'c device" where
  "removeAllOf d event =
     (if listeners d ''removeListener'' = [] then d\<lparr>events := AList.delete event (events d)\<rparr>
      else foldl (\<lambda>d l. removeListener d event l) d (rev (listeners d event)))"






text \<open>
  What happens to the device: a caller adds or removes listeners through the emitter's
  methods, the runtime runs the callback of an active interval, or the connection opens
  or closes. A listener added with \<^verbatim>\<open>once\<close> enters through \<^verbatim>\<open>on\<close> and leaves through
  \<^verbatim>\<open>removeListener\<close> when its event is emitted, so it is an \<open>On\<close> followed by a
  \<open>RemoveListener\<close>.
\<close>

datatype event =
    On string listener
  | PrependListener string listener
  | RemoveListener string listener
  | RemoveAllListeners "string option"
  | IntervalFires nat string
  | ConnectionOpen bool






section \<open>Vocabulary of the properties\<close>

text \<open>
  The call of \<^verbatim>\<open>sendMessage\<close> that \<^verbatim>\<open>sendKeyPress(usePage, usage, down)\<close> makes: one
  \<^verbatim>\<open>SendHIDEventMessage\<close> frame.
\<close>

definition frame :: "(nat \<Rightarrow> byte list) \<Rightarrow> nat \<Rightarrow> nat \<Rightarrow> bool \<Rightarrow> outmsg" where
  "frame enc usePage usage down =
     \<lparr>definitionFilename = ''SendHIDEventMessage'', messageType = ''SendHIDEventMessage'',
      body = [(''hidEventData'', VBuf (hidEventData enc usePage usage down))],
      waitForResponse = False, priority = 0\<rparr>"



section \<open>Properties of key presses\<close>

lemma time_bytes:
  "Buffer_from_hex ''438922cf08020000'' = [0x43, 0x89, 0x22, 0xCF, 0x08, 0x02, 0, 0]"
  by (simp add: hexDigit_def)

lemma scaffold_bytes:
  "Buffer_from_hex (''00000000000000000100000000000000020''
                    @ ''00000200000000300000001000000000000'')
   = [0,0,0,0,0,0,0,0, 1,0,0,0, 0,0,0,0, 2,0,0,0, 0x20,0,0,0, 3,0,0,0, 1,0,0,0, 0,0,0]"
  by (simp add: hexDigit_def)

lemma trailer_bytes:
  "Buffer_from_hex ''0000000000000001000000'' = [0,0,0,0,0,0,0,1,0,0,0]"
  by (simp add: hexDigit_def)

lemma hidEventData_unfold:
  "hidEventData enc p u d =
     [0x43, 0x89, 0x22, 0xCF, 0x08, 0x02, 0, 0]
     @ [0,0,0,0,0,0,0,0, 1,0,0,0, 0,0,0,0, 2,0,0,0, 0x20,0,0,0, 3,0,0,0, 1,0,0,0, 0,0,0]
     @ (enc p @ enc u @ enc (if d then 1 else 0))
     @ [0,0,0,0,0,0,0,1,0,0,0]"
  unfolding hidEventData_def Let_def time_bytes scaffold_bytes trailer_bytes
  by simp

lemma sendKeyPress_frame:
  "sendKeyPress conn enc c p u d =
     (case fst (conn c (frame enc p u d)) of Inl e \<Rightarrow> Inl e | Inr r \<Rightarrow> Inr (),
      [SendMessage (frame enc p u d)], snd (conn c (frame enc p u d)))"
  by (simp add: sendKeyPress_def sendMessage_def frame_def Let_def split: prod.splits sum.splits)

text \<open>
  C1, as amended. The buffer that \<^verbatim>\<open>sendKeyPress(usagePage, usageId, down)\<close> sends as
  \<^verbatim>\<open>hidEventData\<close> of a \<^verbatim>\<open>SendHIDEventMessage\<close> (without waiting for a response) has
  60 bytes when the helper encodes a number in two bytes: the 8-byte timestamp stub
  \<open>43 89 22 CF 08 02 00 00\<close>, 35 constant bytes, the encodings of \<open>usagePage\<close>,
  \<open>usageId\<close> and of 1 or 0 for \<open>down\<close> at the offsets 43 to 48, and 11 constant bytes.
\<close>

theorem sendKeyPress_hidEventData:
  assumes "\<forall>n. length (enc n) = 2"
  shows "fst (snd (sendKeyPress conn enc c usePage usage down)) =
           [SendMessage \<lparr>definitionFilename = ''SendHIDEventMessage'',
                         messageType = ''SendHIDEventMessage'',
                         body = [(''hidEventData'', VBuf (hidEventData enc usePage usage down))],
                         waitForResponse = False, priority = 0\<rparr>]
         \<and> length (hidEventData enc usePage usage down) = 60
         \<and> take 8 (hidEventData enc usePage usage down) = [0x43, 0x89, 0x22, 0xCF, 0x08, 0x02, 0, 0]
         \<and> take 35 (drop 8 (hidEventData enc usePage usage down)) =
             [0,0,0,0,0,0,0,0, 1,0,0,0, 0,0,0,0, 2,0,0,0, 0x20,0,0,0, 3,0,0,0, 1,0,0,0, 0,0,0]
         \<and> take 6 (drop 43 (hidEventData enc usePage usage down)) =
             enc usePage @ enc usage @ enc (if down then 1 else 0)
         \<and> drop 49 (hidEventData enc usePage usage down) = [0,0,0,0,0,0,0,1,0,0,0]"
proof -
  have l: "length (enc usePage) = 2" "length (enc usage) = 2"
    "length (enc (if down then 1 else 0)) = 2"
    using assms by blast+
  have m: "fst (snd (sendKeyPress conn enc c usePage usage down)) =
             [SendMessage (frame enc usePage usage down)]"
    by (simp add: sendKeyPress_frame)
  show ?thesis
    unfolding m frame_def hidEventData_unfold using l by simp
qed

text \<open>
  The Menu key, at the offsets 43 to 48: under the little-endian encoder the press frame
  carries \<open>01 00 86 00 01 00\<close> and the release frame \<open>01 00 86 00 00 00\<close>; under
  the big-endian encoder they carry \<open>00 01 00 86 00 01\<close> and \<open>00 01 00 86 00 00\<close>.
\<close>

theorem sendKeyPress_hidEventData_witness:
  "(\<forall>n. length (uint16LE n) = 2)
   \<and> length (hidEventData uint16LE 1 0x86 True) = 60
   \<and> take 6 (drop 43 (hidEventData uint16LE 1 0x86 True)) = [0x01, 0x00, 0x86, 0x00, 0x01, 0x00]
   \<and> take 6 (drop 43 (hidEventData uint16LE 1 0x86 False)) = [0x01, 0x00, 0x86, 0x00, 0x00, 0x00]
   \<and> (\<forall>n. length (uint16BE n) = 2)
   \<and> length (hidEventData uint16BE 1 0x86 True) = 60
   \<and> take 6 (drop 43 (hidEventData uint16BE 1 0x86 True)) = [0x00, 0x01, 0x00, 0x86, 0x00, 0x01]
   \<and> take 6 (drop 43 (hidEventData uint16BE 1 0x86 False)) = [0x00, 0x01, 0x00, 0x86, 0x00, 0x00]"
proof -
  have h: "\<forall>n. length (uint16LE n) = 2" by (simp add: uint16LE_def)
  have e: "uint16LE 1 = [1, 0]" "uint16LE 0x86 = [0x86, 0]" "uint16LE 0 = [0, 0]"
    by (simp_all add: uint16LE_def)
  have p: "length (hidEventData uint16LE 1 0x86 True) = 60
           \<and> take 6 (drop 43 (hidEventData uint16LE 1 0x86 True))
               = uint16LE 1 @ uint16LE 0x86 @ uint16LE 1"
    using sendKeyPress_hidEventData [OF h, of fulfilling "()" 1 "0x86" True] by simp
  have r: "take 6 (drop 43 (hidEventData uint16LE 1 0x86 False))
             = uint16LE 1 @ uint16LE 0x86 @ uint16LE 0"
    using sendKeyPress_hidEventData [OF h, of fulfilling "()" 1 "0x86" False] by simp
  have h': "\<forall>n. length (uint16BE n) = 2" by (simp add: uint16BE_def)
  have e': "uint16BE 1 = [0, 1]" "uint16BE 0x86 = [0, 0x86]" "uint16BE 0 = [0, 0]"
    by (simp_all add: uint16BE_def)
  have p': "length (hidEventData uint16BE 1 0x86 True) = 60
           \<and> take 6 (drop 43 (hidEventData uint16BE 1 0x86 True))
               = uint16BE 1 @ uint16BE 0x86 @ uint16BE 1"
    using sendKeyPress_hidEventData [OF h', of fulfilling "()" 1 "0x86" True] by simp
  have r': "take 6 (drop 43 (hidEventData uint16BE 1 0x86 False))
             = uint16BE 1 @ uint16BE 0x86 @ uint16BE 0"
    using sendKeyPress_hidEventData [OF h', of fulfilling "()" 1 "0x86" False] by simp
  show ?thesis using h p r e h' p' r' e' by simp
qed

text \<open>
  C1 as stated fails: the buffer of the Menu press has 60 bytes, not 44, and its bytes
  at the offsets 30 to 35 are the constants \<open>00 00 03 00 00 00\<close>, not
  \<open>01 00 86 00 01 00\<close>.
\<close>

theorem hidEventData_44_counterexample:
  "length (hidEventData uint16LE 1 0x86 True) = 60
   \<and> length (hidEventData uint16LE 1 0x86 True) \<noteq> 44
   \<and> take 6 (drop 30 (hidEventData uint16LE 1 0x86 True)) = [0x00, 0x00, 0x03, 0x00, 0x00, 0x00]
   \<and> take 6 (drop 30 (hidEventData uint16LE 1 0x86 True)) \<noteq> [0x01, 0x00, 0x86, 0x00, 0x01, 0x00]"
  unfolding hidEventData_unfold by (simp add: uint16LE_def)

lemma sendKeyPressAndRelease_fulfilled:
  assumes "fst (conn c (frame enc p u True)) = Inr r"
  shows "fst (snd (sendKeyPressAndRelease conn enc c p u hold)) =
           [SendMessage (frame enc p u True)]
           @ (if hold = Some True then [Delay 1000] else [])
           @ [SendMessage (frame enc p u False)]"
  using assms
  by (cases hold) (simp_all add: sendKeyPressAndRelease_def sendKeyPress_frame Let_def)

text \<open>When the press is rejected, the release is never sent.\<close>

lemma sendKeyPressAndRelease_rejected:
  assumes "fst (conn c (frame enc p u True)) = Inl e"
  shows "sendKeyPressAndRelease conn enc c p u hold =
           (Inl e, [SendMessage (frame enc p u True)], snd (conn c (frame enc p u True)))"
  using assms
  by (simp add: sendKeyPressAndRelease_def sendKeyPress_frame Let_def)

lemma pressAndRelease_trace:
  "fst (snd (pressAndRelease conn enc c p u hold)) =
     fst (snd (sendKeyPressAndRelease conn enc c p u hold))"
  by (simp add: pressAndRelease_def split: prod.splits)

lemma frame_bytes:
  "frame enc p u d =
     \<lparr>definitionFilename = ''SendHIDEventMessage'', messageType = ''SendHIDEventMessage'',
      body = [(''hidEventData'', VBuf
                ([0x43, 0x89, 0x22, 0xCF, 0x08, 0x02, 0, 0,
                     0,0,0,0,0,0,0,0, 1,0,0,0, 0,0,0,0, 2,0,0,0, 0x20,0,0,0, 3,0,0,0, 1,0,0,0, 0,0,0]
                 @ enc p @ enc u @ enc (if d then 1 else 0)
                 @ [0,0,0,0,0,0,0,1,0,0,0]))],
      waitForResponse = False, priority = 0\<rparr>"
  by (simp add: frame_def hidEventData_unfold)

lemma sendKeyPressAndRelease_effects:
  "fst (snd (sendKeyPressAndRelease conn enc c p u hold)) =
     SendMessage (frame enc p u True) #
     (case fst (conn c (frame enc p u True)) of
        Inl e \<Rightarrow> []
      | Inr r \<Rightarrow> (if hold = Some True then [Delay 1000] else [])
                 @ [SendMessage (frame enc p u False)])"
proof (cases "fst (conn c (frame enc p u True))")
  case (Inl e)
  then show ?thesis by (simp add: sendKeyPressAndRelease_rejected)
next
  case (Inr r)
  then show ?thesis using sendKeyPressAndRelease_fulfilled [where conn = conn and c = c] by simp
qed

text \<open>
  C3, as amended. For every key of the enum, \<^verbatim>\<open>sendKeyCommand\<close> sends a
  \<^verbatim>\<open>SendHIDEventMessage\<close> frame whose buffer carries, after its 43 constant bytes, the
  usage page and usage of the table and \<open>down = 1\<close>; when the promise of that send is
  fulfilled it sends a second frame with the same pair and \<open>down = 0\<close>, and nothing
  else, so exactly two frames; when the promise is rejected the second frame is not
  sent. For \<open>HomeHold\<close>, and for no other key, a delay of 1000 ms lies between the two
  frames. Here \<open>F\<close> is the frame for a triple and \<open>T\<close> the effects for a pair and the
  delay between.
\<close>

theorem sendKeyCommand_frames:
  "(let F = (\<lambda>usePage usage down.
              \<lparr>definitionFilename = ''SendHIDEventMessage'',
               messageType = ''SendHIDEventMessage'',
               body = [(''hidEventData'', VBuf
                         ([0x43, 0x89, 0x22, 0xCF, 0x08, 0x02, 0, 0,
                          0,0,0,0,0,0,0,0, 1,0,0,0, 0,0,0,0, 2,0,0,0, 0x20,0,0,0, 3,0,0,0, 1,0,0,0, 0,0,0]
                          @ enc usePage @ enc usage @ enc down
                          @ [0,0,0,0,0,0,0,1,0,0,0]))],
               waitForResponse = False, priority = 0\<rparr>);
        T = (\<lambda>usePage usage between.
              SendMessage (F usePage usage 1) #
              (case fst (conn c (F usePage usage 1)) of
                 Inl e \<Rightarrow> []
               | Inr r \<Rightarrow> between @ [SendMessage (F usePage usage 0)]))
    in fst (snd (sendKeyCommand conn enc c (Some Up))) = T 1 0x8C []
    \<and> fst (snd (sendKeyCommand conn enc c (Some Down))) = T 1 0x8D []
    \<and> fst (snd (sendKeyCommand conn enc c (Some Left))) = T 1 0x8B []
    \<and> fst (snd (sendKeyCommand conn enc c (Some Right))) = T 1 0x8A []
    \<and> fst (snd (sendKeyCommand conn enc c (Some Menu))) = T 1 0x86 []
    \<and> fst (snd (sendKeyCommand conn enc c (Some Select))) = T 1 0x89 []
    \<and> fst (snd (sendKeyCommand conn enc c (Some Suspend))) = T 1 0x82 []
    \<and> fst (snd (sendKeyCommand conn enc c (Some WakeUp))) = T 1 0x83 []
    \<and> fst (snd (sendKeyCommand conn enc c (Some Play))) = T 12 0xB0 []
    \<and> fst (snd (sendKeyCommand conn enc c (Some Pause))) = T 12 0xB1 []
    \<and> fst (snd (sendKeyCommand conn enc c (Some Next))) = T 12 0xB5 []
    \<and> fst (snd (sendKeyCommand conn enc c (Some Previous))) = T 12 0xB6 []
    \<and> fst (snd (sendKeyCommand conn enc c (Some Topmenu))) = T 12 0x60 []
    \<and> fst (snd (sendKeyCommand conn enc c (Some Home))) = T 12 0x40 []
    \<and> fst (snd (sendKeyCommand conn enc c (Some HomeHold))) = T 12 0x40 [Delay 1000]
    \<and> fst (snd (sendKeyCommand conn enc c (Some VolumeUp))) = T 12 0xE9 []
    \<and> fst (snd (sendKeyCommand conn enc c (Some VolumeDown))) = T 12 0xEA [])"
proof -
  have t: "fst (snd (pressAndRelease conn enc c p u hold)) =
     SendMessage (frame enc p u True) #
     (case fst (conn c (frame enc p u True)) of
        Inl e \<Rightarrow> []
      | Inr r \<Rightarrow> (if hold = Some True then [Delay 1000] else [])
                 @ [SendMessage (frame enc p u False)])" for p u hold
    unfolding pressAndRelease_trace by (rule sendKeyPressAndRelease_effects)
  show ?thesis
    unfolding Let_def by (simp add: t frame_bytes cong: sum.case_cong)
qed

text \<open>
  The Menu and HomeHold keys on a connection that fulfils every send, with the
  big-endian encoder.
\<close>

theorem sendKeyCommand_frames_witness:
  "fst (snd (sendKeyCommand fulfilling uint16BE () (Some Menu))) =
     [SendMessage \<lparr>definitionFilename = ''SendHIDEventMessage'',
                      messageType = ''SendHIDEventMessage'',
                      body = [(''hidEventData'', VBuf
                        [0x43, 0x89, 0x22, 0xCF, 0x08, 0x02, 0, 0,
                         0,0,0,0,0,0,0,0, 1,0,0,0, 0,0,0,0, 2,0,0,0, 0x20,0,0,0, 3,0,0,0,
                         1,0,0,0, 0,0,0,
                         0x00, 0x01, 0x00, 0x86, 0x00, 0x01,
                         0,0,0,0,0,0,0,1,0,0,0])],
                      waitForResponse = False, priority = 0\<rparr>,
      SendMessage \<lparr>definitionFilename = ''SendHIDEventMessage'',
                      messageType = ''SendHIDEventMessage'',
                      body = [(''hidEventData'', VBuf
                        [0x43, 0x89, 0x22, 0xCF, 0x08, 0x02, 0, 0,
                         0,0,0,0,0,0,0,0, 1,0,0,0, 0,0,0,0, 2,0,0,0, 0x20,0,0,0, 3,0,0,0,
                         1,0,0,0, 0,0,0,
                         0x00, 0x01, 0x00, 0x86, 0x00, 0x00,
                         0,0,0,0,0,0,0,1,0,0,0])],
                      waitForResponse = False, priority = 0\<rparr>]
   \<and> fst (snd (sendKeyCommand fulfilling uint16BE () (Some HomeHold))) =
     [SendMessage \<lparr>definitionFilename = ''SendHIDEventMessage'',
                      messageType = ''SendHIDEventMessage'',
                      body = [(''hidEventData'', VBuf
                        [0x43, 0x89, 0x22, 0xCF, 0x08, 0x02, 0, 0,
                         0,0,0,0,0,0,0,0, 1,0,0,0, 0,0,0,0, 2,0,0,0, 0x20,0,0,0, 3,0,0,0,
                         1,0,0,0, 0,0,0,
                         0x00, 0x0C, 0x00, 0x40, 0x00, 0x01,
                         0,0,0,0,0,0,0,1,0,0,0])],
                      waitForResponse = False, priority = 0\<rparr>,
      Delay 1000,
      SendMessage \<lparr>definitionFilename = ''SendHIDEventMessage'',
                      messageType = ''SendHIDEventMessage'',
                      body = [(''hidEventData'', VBuf
                        [0x43, 0x89, 0x22, 0xCF, 0x08, 0x02, 0, 0,
                         0,0,0,0,0,0,0,0, 1,0,0,0, 0,0,0,0, 2,0,0,0, 0x20,0,0,0, 3,0,0,0,
                         1,0,0,0, 0,0,0,
                         0x00, 0x0C, 0x00, 0x40, 0x00, 0x00,
                         0,0,0,0,0,0,0,1,0,0,0])],
                      waitForResponse = False, priority = 0\<rparr>]"
proof -
  have e: "uint16BE 1 = [0, 1]" "uint16BE 0 = [0, 0]" "uint16BE 0x86 = [0, 0x86]"
    "uint16BE 12 = [0, 0x0C]" "uint16BE 0x40 = [0, 0x40]"
    by (simp_all add: uint16BE_def)
  have f: "fst (fulfilling () m) = Inr ()" for m
    by (simp add: fulfilling_def)
  show ?thesis
    using sendKeyCommand_frames [where conn = fulfilling and c = "()" and enc = uint16BE]
    unfolding Let_def f e by simp
qed

text \<open>
  C3 as stated fails: on a connection that rejects the send of the press,
  \<^verbatim>\<open>sendKeyCommand(Key.Menu)\<close> sends one frame, not two.
\<close>

theorem sendKeyCommand_one_frame_counterexample:
  "fst (snd (sendKeyCommand rejecting uint16BE () (Some Menu))) =
     [SendMessage \<lparr>definitionFilename = ''SendHIDEventMessage'',
                      messageType = ''SendHIDEventMessage'',
                      body = [(''hidEventData'', VBuf
                        [0x43, 0x89, 0x22, 0xCF, 0x08, 0x02, 0, 0,
                         0,0,0,0,0,0,0,0, 1,0,0,0, 0,0,0,0, 2,0,0,0, 0x20,0,0,0, 3,0,0,0,
                         1,0,0,0, 0,0,0,
                         0x00, 0x01, 0x00, 0x86, 0x00, 0x01,
                         0,0,0,0,0,0,0,1,0,0,0])],
                      waitForResponse = False, priority = 0\<rparr>]
   \<and> length (fst (snd (sendKeyCommand rejecting uint16BE () (Some Menu)))) = 1
   \<and> fst (sendKeyCommand rejecting uint16BE () (Some Menu))
       = Inr (Promise (Inl (Error ''rejected'')))"
proof -
  have r: "sendKeyPressAndRelease rejecting uint16BE () 1 0x86 None =
             (Inl (Error ''rejected''), [SendMessage (frame uint16BE 1 0x86 True)], ())"
    by (rule sendKeyPressAndRelease_rejected [THEN trans]) (simp_all add: rejecting_def)
  have k: "sendKeyCommand rejecting uint16BE () (Some Menu) =
             (Inr (Promise (Inl (Error ''rejected''))),
              [SendMessage (frame uint16BE 1 0x86 True)], ())"
    unfolding sendKeyCommand.simps pressAndRelease_def r by simp
  show ?thesis
    unfolding k frame_bytes by (simp add: uint16BE_def)
qed

section \<open>Properties of the key names\<close>

text \<open>
  C10. \<^verbatim>\<open>AppleTV.key\<close> returns the enum member for each of its sixteen names; for
  \<open>next\<close> it returns \<^verbatim>\<open>undefined\<close>, although the enum has \<open>Next\<close>, and so it does for
  every other string.
\<close>

theorem key_names:
  "key ''up'' = Inr (Some Up) \<and> key ''down'' = Inr (Some Down)
   \<and> key ''left'' = Inr (Some Left) \<and> key ''right'' = Inr (Some Right)
   \<and> key ''menu'' = Inr (Some Menu) \<and> key ''play'' = Inr (Some Play)
   \<and> key ''pause'' = Inr (Some Pause) \<and> key ''previous'' = Inr (Some Previous)
   \<and> key ''suspend'' = Inr (Some Suspend) \<and> key ''select'' = Inr (Some Select)
   \<and> key ''topmenu'' = Inr (Some Topmenu) \<and> key ''wakeup'' = Inr (Some WakeUp)
   \<and> key ''volumeup'' = Inr (Some VolumeUp) \<and> key ''volumedown'' = Inr (Some VolumeDown)
   \<and> key ''home'' = Inr (Some Home) \<and> key ''homehold'' = Inr (Some HomeHold)
   \<and> key ''next'' = Inr None
   \<and> (\<forall>keyName. keyName \<notin> set keyNames \<longrightarrow> key keyName = Inr None)"
  by (simp add: key_def keyNames_def)

theorem key_names_witness:
  "''power'' \<notin> set keyNames \<and> key ''power'' = Inr None \<and> key ''next'' = Inr None"
proof -
  have h: "''power'' \<notin> set keyNames" by (simp add: keyNames_def)
  show ?thesis using h key_names by blast
qed

text \<open>
  C7 as stated fails: for the unknown name \<open>enter\<close>, \<^verbatim>\<open>AppleTV.key\<close> returns
  \<^verbatim>\<open>undefined\<close> and raises nothing, and \<^verbatim>\<open>sendKeyCommand(undefined)\<close> returns
  \<^verbatim>\<open>undefined\<close> without an effect and raises nothing.
\<close>

theorem unknown_key_counterexample:
  "key ''enter'' = Inr None
   \<and> sendKeyCommand fulfilling uint16LE () None = (Inr Undefined, [], ())"
  by (simp add: key_def)

text \<open>
  C7, as amended. For a name that \<^verbatim>\<open>AppleTV.key\<close> has no case for, the lookup returns
  \<^verbatim>\<open>undefined\<close> and raises no error; \<^verbatim>\<open>sendKeyCommand\<close> with a value that matches no
  case sends nothing, raises no error and returns \<^verbatim>\<open>undefined\<close>.
\<close>

theorem unknown_key_returns_undefined:
  assumes "keyName \<notin> set keyNames"
  shows "key keyName = Inr None
         \<and> (\<forall>e. key keyName \<noteq> Inl e)
         \<and> sendKeyCommand conn enc c None = (Inr Undefined, [], c)"
  using assms by (simp add: key_def keyNames_def)

theorem unknown_key_returns_undefined_witness:
  "''Up'' \<notin> set keyNames \<and> key ''Up'' = Inr None
   \<and> sendKeyCommand fulfilling uint16LE () None = (Inr Undefined, [], ())"
proof -
  have h: "''Up'' \<notin> set keyNames" by (simp add: keyNames_def)
  show ?thesis
    using h unknown_key_returns_undefined
            [where keyName = "''Up''" and conn = fulfilling and enc = uint16LE and c = "()"]
    by simp
qed

section \<open>Properties of the introduction\<close>

lemma sendMessage_effects:
  "fst (snd (sendMessage conn c file ty b wait prio)) =
     [SendMessage \<lparr>definitionFilename = file, messageType = ty, body = b, waitForResponse = wait,
                   priority = (case prio of None \<Rightarrow> 0 | Some p \<Rightarrow> p)\<rparr>]"
  by (simp add: sendMessage_def Let_def split: prod.splits)

text \<open>
  C2, as amended. \<^verbatim>\<open>sendIntroduction\<close> of \<^verbatim>\<open>src/lib/appletv.ts\<close> sends one
  \<^verbatim>\<open>DeviceInfoMessage\<close>, waiting for the response, whose \<^verbatim>\<open>uniqueIdentifier\<close> is the
  pairing id, with \<^verbatim>\<open>localizedModelName\<close> \<open>iPhone\<close>, \<^verbatim>\<open>protocolVersion\<close> 1 and the
  flags \<^verbatim>\<open>supportsSystemPairing\<close>, \<^verbatim>\<open>supportsSharedQueue\<close> and \<^verbatim>\<open>supportsACL\<close> true;
  the sixteen fields are the same on every invocation, and only \<^verbatim>\<open>uniqueIdentifier\<close>
  varies with the pairing id. The compiled copy agrees on \<^verbatim>\<open>uniqueIdentifier\<close>,
  \<^verbatim>\<open>localizedModelName\<close>, \<^verbatim>\<open>protocolVersion\<close> and \<^verbatim>\<open>supportsSystemPairing\<close>.
\<close>

theorem sendIntroduction_fields:
  "fst (snd (sendIntroduction conn c pid)) =
     [SendMessage \<lparr>definitionFilename = ''DeviceInfoMessage'', messageType = ''DeviceInfoMessage'',
                   body = introductionBody pid, waitForResponse = True, priority = 0\<rparr>]
   \<and> map_of (introductionBody pid) ''uniqueIdentifier'' = Some (VStr pid)
   \<and> map_of (introductionBody pid) ''localizedModelName'' = Some (VStr ''iPhone'')
   \<and> map_of (introductionBody pid) ''protocolVersion'' = Some (VNum 1)
   \<and> map_of (introductionBody pid) ''supportsSystemPairing'' = Some (VBool True)
   \<and> map_of (introductionBody pid) ''supportsSharedQueue'' = Some (VBool True)
   \<and> map_of (introductionBody pid) ''supportsACL'' = Some (VBool True)
   \<and> map fst (introductionBody pid) =
       [''uniqueIdentifier'', ''name'', ''localizedModelName'', ''systemBuildVersion'',
        ''applicationBundleIdentifier'', ''applicationBundleVersion'', ''protocolVersion'',
        ''allowsPairing'', ''lastSupportedMessageType'', ''supportsSystemPairing'',
        ''supportsSharedQueue'', ''supportsACL'', ''supportsExtendedMotion'',
        ''sharedQueueVersion'', ''deviceClass'', ''logicalDeviceCount'']
   \<and> tl (introductionBody pid) = tl (introductionBody pid')
   \<and> map_of (dist_introductionBody pid) ''uniqueIdentifier'' = Some (VStr pid)
   \<and> map_of (dist_introductionBody pid) ''localizedModelName'' = Some (VStr ''iPhone'')
   \<and> map_of (dist_introductionBody pid) ''protocolVersion'' = Some (VNum 1)
   \<and> map_of (dist_introductionBody pid) ''supportsSystemPairing'' = Some (VBool True)"
  by (simp add: sendIntroduction_def sendMessage_effects introductionBody_def
        dist_introductionBody_def)

text \<open>
  C2 as stated fails: the two copies of the introduction do not agree on the field set.
  The compiled copy \<^verbatim>\<open>dist/lib/appletv.js\<close> sets neither \<^verbatim>\<open>supportsACL\<close> nor
  \<^verbatim>\<open>supportsSharedQueue\<close>.
\<close>

theorem dist_introduction_counterexample:
  "map_of (dist_introductionBody ''id'') ''supportsACL'' = None
   \<and> map_of (dist_introductionBody ''id'') ''supportsSharedQueue'' = None
   \<and> map_of (introductionBody ''id'') ''supportsACL'' = Some (VBool True)
   \<and> fst (snd (dist_sendIntroduction fulfilling () ''id''))
       \<noteq> fst (snd (sendIntroduction fulfilling () ''id''))"
  by (simp add: introductionBody_def dist_introductionBody_def sendIntroduction_def
        dist_sendIntroduction_def sendMessage_effects)

section \<open>Properties of the constructor\<close>

text \<open>
  C8. The constructor sets the address of the device to the second element of the
  service's addresses when there is more than one, and to the first otherwise (which
  is \<^verbatim>\<open>undefined\<close> when there is none).
\<close>

theorem constructor_address:
  "(length (addresses service) > 1 \<longrightarrow>
      address (constructor service uuid) = Some (addresses service ! 1))
   \<and> (length (addresses service) = 1 \<longrightarrow>
      address (constructor service uuid) = Some (addresses service ! 0))
   \<and> (addresses service = [] \<longrightarrow> address (constructor service uuid) = None)
   \<and> (length (addresses service) > 1 \<longrightarrow>
      address (constructor service uuid) = index (addresses service) 1)
   \<and> (\<not> length (addresses service) > 1 \<longrightarrow>
      address (constructor service uuid) = index (addresses service) 0)"
  by (auto simp add: constructor_def index_def)

theorem constructor_address_witness:
  "address (constructor \<lparr>addresses = [''fe80::1'', ''192.168.1.20'', ''10.0.0.2''],
                          servicePort = 49152,
                          txtRecord = \<lparr>Name = ''Living Room'', UniqueIdentifier = ''A1''\<rparr>\<rparr> ''u'')
     = Some ''192.168.1.20''
   \<and> address (constructor \<lparr>addresses = [''192.168.1.20''], servicePort = 49152,
                          txtRecord = \<lparr>Name = ''Living Room'', UniqueIdentifier = ''A1''\<rparr>\<rparr> ''u'')
     = Some ''192.168.1.20''
   \<and> address (constructor \<lparr>addresses = [], servicePort = 49152,
                          txtRecord = \<lparr>Name = ''Living Room'', UniqueIdentifier = ''A1''\<rparr>\<rparr> ''u'')
     = None"
  using constructor_address
    [of "\<lparr>addresses = [''fe80::1'', ''192.168.1.20'', ''10.0.0.2''], servicePort = 49152,
          txtRecord = \<lparr>Name = ''Living Room'', UniqueIdentifier = ''A1''\<rparr>\<rparr>" "''u''"]
    constructor_address
    [of "\<lparr>addresses = [''192.168.1.20''], servicePort = 49152,
          txtRecord = \<lparr>Name = ''Living Room'', UniqueIdentifier = ''A1''\<rparr>\<rparr>" "''u''"]
    constructor_address
    [of "\<lparr>addresses = [], servicePort = 49152,
          txtRecord = \<lparr>Name = ''Living Room'', UniqueIdentifier = ''A1''\<rparr>\<rparr>" "''u''"]
  by simp

section \<open>Properties of playback queue requests\<close>

lemma map_of_playbackQueueParams:
  "map_of (playbackQueueParams options u) =
     (if truthy (getProp options ''artworkSize'')
      then (map_of options)
             (''requestID'' \<mapsto> VStr u,
              ''artworkWidth'' \<mapsto> member (getProp options ''artworkSize'') ''width'',
              ''artworkHeight'' \<mapsto> member (getProp options ''artworkSize'') ''height'',
              ''artworkSize'' := None)
      else (map_of options)(''requestID'' \<mapsto> VStr u))"
  by (simp add: playbackQueueParams_def Let_def getProp_def AList.update_conv' AList.delete_conv')

text \<open>
  C9. \<^verbatim>\<open>requestPlaybackQueue(options)\<close> changes the object it is given: afterwards
  \<^verbatim>\<open>requestID\<close> holds the identifier just drawn; when \<^verbatim>\<open>artworkSize\<close> was set,
  \<^verbatim>\<open>artworkWidth\<close> and \<^verbatim>\<open>artworkHeight\<close> hold its width and height and \<^verbatim>\<open>artworkSize\<close>
  is gone; no other property changes; and the object differs from what was passed in
  whenever \<^verbatim>\<open>artworkSize\<close> was set or the identifier is fresh. The object as changed is
  the body of the request, which waits for the response.
\<close>

theorem requestPlaybackQueue_mutates:
  "getProp (fst (requestPlaybackQueue conn c options u)) ''requestID'' = VStr u
   \<and> (truthy (getProp options ''artworkSize'') \<longrightarrow>
        getProp (fst (requestPlaybackQueue conn c options u)) ''artworkWidth''
          = member (getProp options ''artworkSize'') ''width''
      \<and> getProp (fst (requestPlaybackQueue conn c options u)) ''artworkHeight''
          = member (getProp options ''artworkSize'') ''height''
      \<and> map_of (fst (requestPlaybackQueue conn c options u)) ''artworkSize'' = None
      \<and> fst (requestPlaybackQueue conn c options u) \<noteq> options)
   \<and> (\<not> truthy (getProp options ''artworkSize'') \<longrightarrow>
        fst (requestPlaybackQueue conn c options u)
          = AList.update ''requestID'' (VStr u) options)
   \<and> (map_of options ''requestID'' \<noteq> Some (VStr u) \<longrightarrow>
        fst (requestPlaybackQueue conn c options u) \<noteq> options)
   \<and> (\<forall>k. k \<notin> {''requestID'', ''artworkWidth'', ''artworkHeight'', ''artworkSize''} \<longrightarrow>
        map_of (fst (requestPlaybackQueue conn c options u)) k = map_of options k)
   \<and> fst (snd (snd (requestPlaybackQueue conn c options u))) =
        [SendMessage \<lparr>definitionFilename = ''PlaybackQueueRequestMessage'',
                      messageType = ''PlaybackQueueRequestMessage'',
                      body = fst (requestPlaybackQueue conn c options u),
                      waitForResponse = True, priority = 0\<rparr>]"
proof -
  let ?o = "fst (requestPlaybackQueue conn c options u)"
  have o: "?o = playbackQueueParams options u"
    by (simp add: requestPlaybackQueue_def requestPlaybackQueueWithWait_def Let_def)
  have m: "map_of ?o =
     (if truthy (getProp options ''artworkSize'')
      then (map_of options)
             (''requestID'' \<mapsto> VStr u,
              ''artworkWidth'' \<mapsto> member (getProp options ''artworkSize'') ''width'',
              ''artworkHeight'' \<mapsto> member (getProp options ''artworkSize'') ''height'',
              ''artworkSize'' := None)
      else (map_of options)(''requestID'' \<mapsto> VStr u))"
    unfolding o by (rule map_of_playbackQueueParams)
  have 1: "getProp ?o ''requestID'' = VStr u"
    by (simp add: getProp_def m)
  have 2: "getProp ?o ''artworkWidth'' = member (getProp options ''artworkSize'') ''width''"
          "getProp ?o ''artworkHeight'' = member (getProp options ''artworkSize'') ''height''"
          "map_of ?o ''artworkSize'' = None"
    if "truthy (getProp options ''artworkSize'')"
    using that by (simp_all add: getProp_def m)
  have 3: "?o \<noteq> options" if t: "truthy (getProp options ''artworkSize'')"
  proof
    assume "?o = options"
    then have "map_of options ''artworkSize'' = None" using 2(3) [OF t] by simp
    then have "getProp options ''artworkSize'' = VUndefined" by (simp add: getProp_def)
    with t show False by simp
  qed
  have 4: "?o = AList.update ''requestID'' (VStr u) options"
    if "\<not> truthy (getProp options ''artworkSize'')"
    using that unfolding o
    by (simp add: playbackQueueParams_def Let_def getProp_def AList.update_conv')
  have 5: "?o \<noteq> options" if f: "map_of options ''requestID'' \<noteq> Some (VStr u)"
  proof
    assume "?o = options"
    then have "getProp options ''requestID'' = VStr u" using 1 by simp
    then show False using f by (simp add: getProp_def split: option.splits)
  qed
  have 6: "map_of ?o k = map_of options k"
    if "k \<notin> {''requestID'', ''artworkWidth'', ''artworkHeight'', ''artworkSize''}" for k
    using that by (simp add: m)
  have 7: "fst (snd (snd (requestPlaybackQueue conn c options u))) =
        [SendMessage \<lparr>definitionFilename = ''PlaybackQueueRequestMessage'',
                      messageType = ''PlaybackQueueRequestMessage'',
                      body = ?o, waitForResponse = True, priority = 0\<rparr>]"
    unfolding o
    by (simp add: requestPlaybackQueue_def requestPlaybackQueueWithWait_def Let_def
          sendMessage_effects)
  show ?thesis using 1 2 3 4 5 6 7 by blast
qed

theorem requestPlaybackQueue_mutates_witness:
  "truthy (getProp [(''location'', VNum 0), (''length'', VNum 1),
                    (''artworkSize'', VObj [(''width'', VNum 600), (''height'', VNum 400)])]
             ''artworkSize'')
   \<and> getProp (fst (requestPlaybackQueue fulfilling ()
            [(''location'', VNum 0), (''length'', VNum 1),
             (''artworkSize'', VObj [(''width'', VNum 600), (''height'', VNum 400)])] ''u-1''))
        ''artworkWidth'' = VNum 600
   \<and> getProp (fst (requestPlaybackQueue fulfilling ()
            [(''location'', VNum 0), (''length'', VNum 1),
             (''artworkSize'', VObj [(''width'', VNum 600), (''height'', VNum 400)])] ''u-1''))
        ''artworkHeight'' = VNum 400
   \<and> map_of (fst (requestPlaybackQueue fulfilling ()
            [(''location'', VNum 0), (''length'', VNum 1),
             (''artworkSize'', VObj [(''width'', VNum 600), (''height'', VNum 400)])] ''u-1''))
        ''artworkSize'' = None
   \<and> \<not> truthy (getProp [(''location'', VNum 0), (''length'', VNum 1)] ''artworkSize'')
   \<and> map_of [(''location'', VNum 0), (''length'', VNum 1)] ''requestID'' \<noteq> Some (VStr ''u-2'')
   \<and> ''length'' \<notin> {''requestID'', ''artworkWidth'', ''artworkHeight'', ''artworkSize''}
   \<and> fst (requestPlaybackQueue fulfilling () [(''location'', VNum 0), (''length'', VNum 1)] ''u-2'')
     = [(''location'', VNum 0), (''length'', VNum 1), (''requestID'', VStr ''u-2'')]
   \<and> fst (requestPlaybackQueue fulfilling () [(''location'', VNum 0), (''length'', VNum 1)] ''u-2'')
     \<noteq> [(''location'', VNum 0), (''length'', VNum 1)]"
  using requestPlaybackQueue_mutates
      [of fulfilling "()" "[(''location'', VNum 0), (''length'', VNum 1),
             (''artworkSize'', VObj [(''width'', VNum 600), (''height'', VNum 400)])]" "''u-1''"]
    requestPlaybackQueue_mutates
      [of fulfilling "()" "[(''location'', VNum 0), (''length'', VNum 1)]" "''u-2''"]
  by (simp add: getProp_def)

section \<open>Properties of the inbound message handler\<close>

lemma orFalse_iff: "orFalse x \<longleftrightarrow> x = Some True"
  by (cases x) (simp_all add: orFalse_def)

text \<open>
  C5. For an inbound \<^verbatim>\<open>SetStateMessage\<close> without payload the device emits, after
  \<^verbatim>\<open>message\<close>, exactly one \<^verbatim>\<open>nowPlaying\<close> with \<^verbatim>\<open>null\<close> and nothing else. With a
  payload it emits \<^verbatim>\<open>nowPlaying\<close>, \<^verbatim>\<open>supportedCommands\<close> and \<^verbatim>\<open>playbackQueue\<close>, in this
  order, each exactly when the sub-field \<^verbatim>\<open>nowPlayingInfo\<close>, \<^verbatim>\<open>supportedCommands\<close> or
  \<^verbatim>\<open>playbackQueue\<close> is populated; a command's missing flag counts as false and a missing
  list as empty.
\<close>

theorem setState_fanout:
  assumes "type message = SetStateMessage"
  shows "(payload message = None \<longrightarrow>
            onMessage SetStateMessage NowPlayingInfo message
              = [Emit_message message, Emit_nowPlaying None])
       \<and> (\<forall>p. payload message = Some p \<longrightarrow>
            onMessage SetStateMessage NowPlayingInfo message
              = [Emit_message message]
                @ (if nowPlayingInfo p = None then []
                   else [Emit_nowPlaying (Some (NowPlayingInfo p))])
                @ (if supportedCommands p = None then []
                   else [Emit_supportedCommands
                           (map (\<lambda>sc. SupportedCommand (command sc) (enabled sc = Some True)
                                        (canScrub sc = Some True))
                                (case commands (the (supportedCommands p)) of
                                   None \<Rightarrow> [] | Some l \<Rightarrow> l))])
                @ (if playbackQueue p = None then []
                   else [Emit_playbackQueue (the (playbackQueue p))]))"
  using assms
  by (auto simp add: onMessage_def orFalse_iff split: option.splits)

theorem setState_fanout_witness:
  "onMessage 4 (\<lambda>p. ''info'') (\<lparr>type = 4, payload = None\<rparr> :: (unit, string) Message)
     = [Emit_message \<lparr>type = 4, payload = None\<rparr>, Emit_nowPlaying None]
   \<and> onMessage 4 (\<lambda>p. ''info'')
        (\<lparr>type = 4, payload = Some \<lparr>nowPlayingInfo = None,
           supportedCommands =
             Some \<lparr>commands = Some [\<lparr>command = 1, enabled = Some True, canScrub = None\<rparr>]\<rparr>,
           playbackQueue = Some ''queue''\<rparr>\<rparr> :: (unit, string) Message)
     = [Emit_message \<lparr>type = 4, payload = Some \<lparr>nowPlayingInfo = None,
           supportedCommands =
             Some \<lparr>commands = Some [\<lparr>command = 1, enabled = Some True, canScrub = None\<rparr>]\<rparr>,
           playbackQueue = Some ''queue''\<rparr>\<rparr>,
        Emit_supportedCommands [SupportedCommand 1 True False],
        Emit_playbackQueue ''queue'']"
  using setState_fanout
      [of "\<lparr>type = 4, payload = None\<rparr> :: (unit, string) Message" 4 "\<lambda>p. ''info''"]
    setState_fanout
      [of "\<lparr>type = 4, payload = Some \<lparr>nowPlayingInfo = (None :: unit option),
           supportedCommands =
             Some \<lparr>commands = Some [\<lparr>command = 1, enabled = Some True, canScrub = None\<rparr>]\<rparr>,
           playbackQueue = Some ''queue''\<rparr>\<rparr>" 4 "\<lambda>p. ''info''"]
  by simp

section \<open>Properties of waiting for a message\<close>

lemma waiterRun_Nil: "waiterRun w [] = w"
  by (simp add: waiterRun_def)

lemma waiterRun_Cons: "waiterRun w (h # hs) = waiterRun (waiterStep w h) hs"
  by (simp add: waiterRun_def)

lemma waiterRun_append: "waiterRun w (hs @ hs') = waiterRun (waiterRun w hs) hs'"
  by (simp add: waiterRun_def)

lemma waiterStep_done:
  assumes "timer w = None" "\<not> listening w"
  shows "waiterStep w h = w"
  using assms by (cases h) simp_all

lemma waiterRun_done:
  assumes "timer w = None" "\<not> listening w"
  shows "waiterRun w hs = w"
  using assms
  by (induction hs) (simp_all add: waiterRun_Nil waiterRun_Cons waiterStep_done)

lemma waiterStep_settled:
  assumes "promiseState w \<noteq> Pending"
  shows "promiseState (waiterStep w h) = promiseState w"
  using assms by (cases h) (simp_all add: settle_def split: option.splits)

lemma waiterRun_settled:
  assumes "promiseState w \<noteq> Pending"
  shows "promiseState (waiterRun w hs) = promiseState w"
  using assms
proof (induction hs arbitrary: w)
  case Nil
  then show ?case by (simp add: waiterRun_Nil)
next
  case (Cons h hs)
  have "promiseState (waiterStep w h) = promiseState w"
    using Cons.prems by (rule waiterStep_settled)
  with Cons show ?case by (simp add: waiterRun_Cons)
qed

lemma elapsed_pos: "0 < elapsed hs \<Longrightarrow> \<exists>ms. Elapse ms \<in> set hs"
  by (induction hs rule: elapsed.induct) auto

lemma waiterRun_waiting:
  assumes "\<forall>x \<in> set (inbound hs). type x \<noteq> wanted w"
    and "promiseState w = Pending" and "listening w" and "timer w = Some left"
    and "elapsed hs < left"
  shows "waiterRun w hs = w\<lparr>timer := Some (left - elapsed hs)\<rparr>"
  using assms
proof (induction hs arbitrary: w left rule: elapsed.induct)
  case 1
  then show ?case by (simp add: waiterRun_Nil)
next
  case (2 ms hs)
  let ?w = "w\<lparr>timer := Some (left - ms)\<rparr>"
  have s: "waiterStep w (Elapse ms) = ?w" using 2 by simp
  have "waiterRun ?w hs = ?w\<lparr>timer := Some (left - ms - elapsed hs)\<rparr>"
    using 2 by (intro 2) simp_all
  then show ?case using s by (simp add: waiterRun_Cons)
next
  case (3 m hs)
  have s: "waiterStep w (Inbound m) = w" using 3 by simp
  show ?case using 3 s by (simp add: waiterRun_Cons)
qed

lemma waiterRun_expired:
  assumes "\<forall>x \<in> set (inbound hs). type x \<noteq> wanted w"
    and "promiseState w = Pending" and "listening w" and "timer w = Some left"
    and "left \<le> elapsed hs" and "\<exists>ms. Elapse ms \<in> set hs"
  shows "waiterRun w hs =
           w\<lparr>promiseState := Rejected (Error (''Timed out waiting for message type ''
                                               @ numberToString (wanted w))),
             listening := False, timer := None\<rparr>"
  using assms
proof (induction hs arbitrary: w left rule: elapsed.induct)
  case 1
  then show ?case by simp
next
  case (2 ms hs)
  show ?case
  proof (cases "ms < left")
    case True
    let ?w = "w\<lparr>timer := Some (left - ms)\<rparr>"
    have s: "waiterStep w (Elapse ms) = ?w" using 2 True by simp
    have pos: "0 < elapsed hs" using "2.prems" True by simp
    have le: "left - ms \<le> elapsed hs" using "2.prems" by simp
    have nm: "\<forall>x \<in> set (inbound hs). type x \<noteq> wanted ?w" using "2.prems" by simp
    have "waiterRun ?w hs =
            ?w\<lparr>promiseState := Rejected (Error (''Timed out waiting for message type ''
                                               @ numberToString (wanted ?w))),
               listening := False, timer := None\<rparr>"
      using nm _ _ _ le elapsed_pos [OF pos]
    proof (rule "2.IH")
      show "promiseState ?w = Pending" using "2.prems" by simp
      show "listening ?w" using "2.prems" by simp
      show "timer ?w = Some (left - ms)" by simp
    qed
    then show ?thesis using s by (simp add: waiterRun_Cons)
  next
    case False
    let ?w = "w\<lparr>promiseState := Rejected (Error (''Timed out waiting for message type ''
                                               @ numberToString (wanted w))),
                 listening := False, timer := None\<rparr>"
    have s: "waiterStep w (Elapse ms) = ?w" using 2 False by (simp add: settle_def)
    have "waiterRun ?w hs = ?w" by (rule waiterRun_done) simp_all
    then show ?thesis using s by (simp add: waiterRun_Cons)
  qed
next
  case (3 m hs)
  have s: "waiterStep w (Inbound m) = w" using 3 by simp
  have "\<exists>ms. Elapse ms \<in> set hs" using 3 by auto
  then show ?case using 3 s by (simp add: waiterRun_Cons)
qed


lemma setTimeoutDelay_in_range:
  assumes "1 \<le> r * 1000" and "r * 1000 \<le> 2147483647"
  shows "setTimeoutDelay (times1000 (Number r)) = nat \<lfloor>r * 1000\<rfloor>"
  using assms by (simp add: setTimeoutDelay_def times1000_def)

lemma setTimeoutDelay_whole_seconds:
  assumes "1 \<le> n" and "n \<le> 2147483"
  shows "setTimeoutDelay (times1000 (Number (of_nat n))) = n * 1000"
proof -
  let ?k = "n * 1000"
  have e: "(of_nat n :: rat) * 1000 = of_nat ?k" by simp
  have "(of_nat 1 :: rat) \<le> of_nat ?k"
    by (rule of_nat_mono) (use assms(1) in simp)
  then have lo: "(1 :: rat) \<le> of_nat ?k" by simp
  have "(of_nat ?k :: rat) \<le> of_nat 2147483647"
    by (rule of_nat_mono) (use assms(2) in simp)
  then have hi: "(of_nat ?k :: rat) \<le> 2147483647" by simp
  have "setTimeoutDelay (Number (of_nat ?k)) = ?k"
    using lo hi unfolding setTimeoutDelay_def by (simp del: of_nat_mult)
  then show ?thesis
    unfolding times1000_def number.case e .
qed

lemma setTimeoutDelay_out_of_range:
  assumes "r * 1000 < 1 \<or> 2147483647 < r * 1000"
  shows "setTimeoutDelay (times1000 (Number r)) = 1"
  using assms by (auto simp add: setTimeoutDelay_def times1000_def)

text \<open>
  What the code does for every timeout, with \<open>setTimeoutDelay (times1000 timeout)\<close>
  milliseconds as the time to wait: \<^verbatim>\<open>messageOfType(type, timeout)\<close> has the default
  timeout of 5 seconds. While no message of the type has arrived and less than that time
  has passed, the promise is pending and the listener registered. Once that time has
  passed without such a message, the promise is rejected with the timeout error and the
  listener removed, and nothing that happens afterwards, a matching message included,
  changes anything. When a message of the type arrives before that, the promise is
  resolved with this message, whatever happens afterwards. By the lemmas above, the time
  to wait is \<open>timeout\<close> seconds (in whole milliseconds) as long as
  \<open>timeout * 1000\<close> lies between 1 and 2147483647.
\<close>

lemma messageOfType_outcome:
  fixes pre post :: "('i, 'q) Message happening list"
  shows
  "(messageOfType ty None :: ('i, 'q) Message waiter) = messageOfType ty (Some (Number 5))
   \<and> ((\<forall>x \<in> set (inbound pre). type x \<noteq> ty)
        \<and> elapsed pre < setTimeoutDelay (times1000 timeout) \<longrightarrow>
        promiseState (waiterRun (messageOfType ty (Some timeout)) pre) = Pending
        \<and> listening (waiterRun (messageOfType ty (Some timeout)) pre))
   \<and> ((\<forall>x \<in> set (inbound pre). type x \<noteq> ty)
        \<and> setTimeoutDelay (times1000 timeout) \<le> elapsed pre
        \<and> (\<exists>ms. Elapse ms \<in> set pre) \<longrightarrow>
        promiseState (waiterRun (messageOfType ty (Some timeout)) pre)
          = Rejected (Error (''Timed out waiting for message type '' @ numberToString ty))
        \<and> \<not> listening (waiterRun (messageOfType ty (Some timeout)) pre)
        \<and> waiterRun (messageOfType ty (Some timeout)) (pre @ post)
            = waiterRun (messageOfType ty (Some timeout)) pre)
   \<and> ((\<forall>x \<in> set (inbound pre). type x \<noteq> ty)
        \<and> elapsed pre < setTimeoutDelay (times1000 timeout)
        \<and> type m = ty \<longrightarrow>
        promiseState (waiterRun (messageOfType ty (Some timeout)) (pre @ Inbound m # post))
          = Resolved m)"
proof -
  let ?w = "messageOfType ty (Some timeout) :: ('i, 'q) Message waiter"
  let ?D = "setTimeoutDelay (times1000 timeout)"
  have w: "wanted ?w = ty" "promiseState ?w = Pending" "listening ?w"
    "timer ?w = Some ?D"
    by (simp_all add: messageOfType_def)
  have a: "(messageOfType ty None :: ('i, 'q) Message waiter) = messageOfType ty (Some (Number 5))"
    by (simp add: messageOfType_def)
  have b: "waiterRun ?w pre = ?w\<lparr>timer := Some (?D - elapsed pre)\<rparr>"
    if "\<forall>x \<in> set (inbound pre). type x \<noteq> ty" "elapsed pre < ?D"
    using that w by (intro waiterRun_waiting) simp_all
  have c: "waiterRun ?w pre =
             ?w\<lparr>promiseState := Rejected (Error (''Timed out waiting for message type ''
                                                @ numberToString ty)),
                listening := False, timer := None\<rparr>"
    if "\<forall>x \<in> set (inbound pre). type x \<noteq> ty" "?D \<le> elapsed pre"
      "\<exists>ms. Elapse ms \<in> set pre"
    using waiterRun_expired [of pre ?w ?D] that w by simp
  have c': "waiterRun ?w (pre @ post) = waiterRun ?w pre"
    if "\<forall>x \<in> set (inbound pre). type x \<noteq> ty" "?D \<le> elapsed pre"
      "\<exists>ms. Elapse ms \<in> set pre"
    unfolding waiterRun_append using c [OF that] by (intro waiterRun_done) simp_all
  have d: "promiseState (waiterRun ?w (pre @ Inbound m # post)) = Resolved m"
    if nm: "\<forall>x \<in> set (inbound pre). type x \<noteq> ty" and el: "elapsed pre < ?D"
      and ty: "type m = ty"
  proof -
    let ?v = "waiterStep (waiterRun ?w pre) (Inbound m)"
    have "promiseState ?v = Resolved m"
      using b [OF nm el] w ty by (simp add: settle_def)
    then have "promiseState (waiterRun ?v post) = Resolved m"
      using waiterRun_settled [of ?v post] by simp
    then show ?thesis by (simp add: waiterRun_append waiterRun_Cons)
  qed
  show ?thesis
    using a b c c' d w by simp
qed

text \<open>A timeout of one second, and the default: the claim's behaviour.\<close>

lemma messageOfType_examples:
  "promiseState (waiterRun (messageOfType 4 (Some (Number 1)))
                   ([Elapse 600, Inbound \<lparr>type = 15, payload = None\<rparr>, Elapse 400]
                    @ [Inbound (\<lparr>type = 4, payload = None\<rparr> :: (unit, unit) Message)]))
     = Rejected (Error ''Timed out waiting for message type 4'')
   \<and> promiseState (waiterRun (messageOfType 4 (Some (Number 1)))
                   ([Elapse 600, Inbound \<lparr>type = 15, payload = None\<rparr>]
                    @ Inbound (\<lparr>type = 4, payload = None\<rparr> :: (unit, unit) Message)
                      # [Elapse 400]))
     = Resolved \<lparr>type = 4, payload = None\<rparr>
   \<and> promiseState (waiterRun (messageOfType 4 None)
                   [Elapse 4999, Inbound (\<lparr>type = 15, payload = None\<rparr> :: (unit, unit) Message)])
     = Pending"
proof -
  have n: "numberToString 4 = ''4''" by code_simp
  have d: "setTimeoutDelay (times1000 (Number 1)) = 1000"
    "setTimeoutDelay (times1000 (Number 5)) = 5000"
    by (simp_all add: setTimeoutDelay_def times1000_def)
  show ?thesis
    by (simp add: messageOfType_def waiterRun_def d n settle_def)
qed

text \<open>
  C6. The code breaks the claim for a timeout above 2147483.647 seconds:
  \<^verbatim>\<open>messageOfType(4, 2147484)\<close> hands 2147484000 ms to \<^verbatim>\<open>setTimeout\<close>, which waits
  1 ms instead, so without any inbound message the promise is rejected with the timeout
  error, and the listener removed, after one millisecond and not after 2147484 seconds.
  With one second less the promise is still pending after that millisecond.
\<close>

theorem messageOfType_overflow:
  "setTimeoutDelay (times1000 (Number 2147484)) = 1
   \<and> promiseState (waiterRun (messageOfType 4 (Some (Number 2147484)))
                     [Elapse 1 :: (unit, unit) Message happening])
       = Rejected (Error ''Timed out waiting for message type 4'')
   \<and> \<not> listening (waiterRun (messageOfType 4 (Some (Number 2147484)))
                     [Elapse 1 :: (unit, unit) Message happening])
   \<and> setTimeoutDelay (times1000 (Number 2147483)) = 2147483000
   \<and> promiseState (waiterRun (messageOfType 4 (Some (Number 2147483)))
                     [Elapse 1 :: (unit, unit) Message happening])
       = Pending"
proof -
  have n: "numberToString 4 = ''4''" by code_simp
  have d: "setTimeoutDelay (times1000 (Number 2147484)) = 1"
    "setTimeoutDelay (times1000 (Number 2147483)) = 2147483000"
    by (simp_all add: setTimeoutDelay_def times1000_def)
  show ?thesis
    by (simp add: messageOfType_def waiterRun_def d n settle_def)
qed

section \<open>Properties of the polling timer\<close>





subsection \<open>The table of listeners\<close>

lemma listeners_cong: "events d' = events d \<Longrightarrow> listeners d' ev = listeners d ev"
  by (simp add: listeners_def)


lemma listeners_update:
  "listeners (d\<lparr>events := AList.update ev ls (events d)\<rparr>) ev'
     = (if ev' = ev then ls else listeners d ev')"
  by (simp add: listeners_def AList.update_conv')

lemma listeners_delete:
  "listeners (d\<lparr>events := AList.delete ev (events d)\<rparr>) ev'
     = (if ev' = ev then [] else listeners d ev')"
  by (simp add: listeners_def AList.delete_conv')


lemma removeLast_snoc: "removeLast x (ys @ [x]) = ys"
  by (simp add: removeLast_def)


subsection \<open>The hooks\<close>


lemma onRemoveListener_frame:
  "events (onRemoveListener d ev) = events d"
  "effects (onRemoveListener d ev) = effects d"
  by (simp_all add: onRemoveListener_def clearInterval_def Let_def split: option.splits)


lemma onRemoveListener_idem: "onRemoveListener (onRemoveListener d ev) ev = onRemoveListener d ev"
  by (simp add: onRemoveListener_def clearInterval_def Let_def listenerCount_def listeners_def
        split: option.splits)

lemma foldl_hook:
  assumes "\<And>d. f (f d) = f d"
  shows "foldl (\<lambda>d l. if l = H then f d else d) d ls = (if H \<in> set ls then f d else d)"
proof (induction ls arbitrary: d)
  case Nil
  then show ?case by simp
next
  case (Cons l ls)
  then show ?case using assms by simp
qed


lemma emitRemoveListener_eq:
  "emitRemoveListener d ev =
     (if RemoveListenerHook \<in> set (listeners d ''removeListener'')
      then onRemoveListener d ev else d)"
  unfolding emitRemoveListener_def
  by (rule foldl_hook) (rule onRemoveListener_idem)


lemma emitRemoveListener_frame:
  "events (emitRemoveListener d ev) = events d"
  "effects (emitRemoveListener d ev) = effects d"
  by (simp_all add: emitRemoveListener_eq onRemoveListener_frame)

subsection \<open>Adding and removing one listener\<close>



lemma listeners_removeListener:
  "listeners (removeListener d ev l) ev' =
     (if ev' = ev \<and> l \<in> set (listeners d ev) then removeLast l (listeners d ev)
      else listeners d ev')"
  by (simp add: removeListener_def Let_def listeners_update listeners_delete
        listeners_cong [OF emitRemoveListener_frame(1)])



subsection \<open>The invariant under one listener more or less\<close>






subsection \<open>Removing all listeners\<close>



lemma listeners_foldl_removeListener_other:
  assumes "ev' \<noteq> ev"
  shows "listeners (foldl (\<lambda>d l. removeListener d ev l) d ls) ev' = listeners d ev'"
  using assms
  by (induction ls arbitrary: d) (simp_all add: listeners_removeListener)

lemma listeners_foldl_removeListener_all:
  assumes "listeners d ev = xs"
  shows "listeners (foldl (\<lambda>d l. removeListener d ev l) d (rev xs)) ev = []"
  using assms
proof (induction xs arbitrary: d rule: rev_induct)
  case Nil
  then show ?case by simp
next
  case (snoc x ys)
  have "listeners (removeListener d ev x) ev = ys"
    using snoc.prems by (simp add: listeners_removeListener removeLast_snoc)
  then have "listeners (foldl (\<lambda>d l. removeListener d ev l) (removeListener d ev x) (rev ys)) ev
               = []"
    by (rule snoc.IH)
  then show ?case by simp
qed

lemma listeners_removeAllOf:
  "listeners (removeAllOf d ev) ev' = (if ev' = ev then [] else listeners d ev')"
  by (simp add: removeAllOf_def listeners_delete listeners_foldl_removeListener_other
        listeners_foldl_removeListener_all)





lemma listeners_foldl_removeAllOf_other:
  assumes "ev \<notin> set keys"
  shows "listeners (foldl removeAllOf d keys) ev = listeners d ev"
  using assms
  by (induction keys arbitrary: d) (auto simp add: listeners_removeAllOf)





subsection \<open>Runs of the device\<close>















end
